theory Spec2Isabelle
  imports Complex_Main
begin

section \<open>Python values and failures\<close>

text \<open>
  The program is one Python module, \<^verbatim>\<open>solarApp.py\<close>. Its numbers are Python floats;
  they are modelled as \<^typ>\<open>real\<close>, so every statement below is about the exact
  arithmetic the formulas denote, not about binary rounding. Python integers are
  \<^typ>\<open>int\<close>. An exception is a value of \<open>py_error\<close>, and a function that can raise
  returns \<open>py_error + 'a\<close> with \<open>Inl\<close> for the exception.
\<close>

datatype py_error =
    ValueError string
  | KeyError
  | TypeError
  | AttributeError
  | IndexError
  | ZeroDivisionError
  | RequestException
  | JSONDecodeError

text \<open>True division of two floats: \<^verbatim>\<open>a / b\<close> raises when \<^verbatim>\<open>b\<close> is zero.\<close>

definition py_div :: "real \<Rightarrow> real \<Rightarrow> py_error + real" where
  "py_div a b = (if b = 0 then Inl ZeroDivisionError else Inr (a / b))"

text \<open>
  Rounding to the nearest integer, ties to the even neighbour, which is what Python's
  \<^verbatim>\<open>round\<close> does on the value it is given.
\<close>

definition round_half_even :: "real \<Rightarrow> int" where
  "round_half_even x =
     (let f = \<lfloor>x\<rfloor>; d = x - of_int f
      in if d < 1 / 2 then f
         else if 1 / 2 < d then f + 1
         else if even f then f else f + 1)"

text \<open>\<^verbatim>\<open>round(x, ndigits)\<close> for a non-negative number of digits.\<close>

definition py_round :: "real \<Rightarrow> nat \<Rightarrow> real" where
  "py_round x ndigits = of_int (round_half_even (x * 10 ^ ndigits)) / 10 ^ ndigits"

section \<open>Energy and financial estimations\<close>

text \<open>
  \<^verbatim>\<open>
  def estimate_energy_potential(irradiance, area_m2, panel_efficiency):
      return irradiance * 365 * area_m2 * panel_efficiency
  \<close>
\<close>

definition estimate_energy_potential :: "real \<Rightarrow> real \<Rightarrow> real \<Rightarrow> real" where
  "estimate_energy_potential irradiance area_m2 panel_efficiency =
     irradiance * 365 * area_m2 * panel_efficiency"

text \<open>
  \<^verbatim>\<open>
  def size_components(energy_kWh_per_year):
      daily_energy = energy_kWh_per_year / 365
      panel_wattage = 350
      PSH = 4.5
      panels_needed = daily_energy / (panel_wattage * PSH / 1000)
      inverter_size_kW = daily_energy / PSH
      battery_size_kWh = daily_energy * 0.5
      return int(np.ceil(panels_needed)), round(inverter_size_kW, 2), round(battery_size_kWh, 2)
  \<close>
  The two local constants are given names of their own, so that statements about the
  pricing can refer to the sizer's panel wattage. Every divisor is a non-zero constant,
  so no division here can raise.
\<close>

definition panel_wattage :: real where
  "panel_wattage = 350"

definition PSH :: real where
  "PSH = 4.5"

definition size_components :: "real \<Rightarrow> int \<times> real \<times> real" where
  "size_components energy_kWh_per_year =
     (let daily_energy = energy_kWh_per_year / 365;
          panels_needed = daily_energy / (panel_wattage * PSH / 1000);
          inverter_size_kW = daily_energy / PSH;
          battery_size_kWh = daily_energy * 0.5
      in (\<lceil>panels_needed\<rceil>, py_round inverter_size_kW 2, py_round battery_size_kWh 2))"

text \<open>
  \<^verbatim>\<open>
  def calculate_lcoe(total_cost, annual_energy_kWh, system_lifetime=25):
      return total_cost / (annual_energy_kWh * system_lifetime)
  \<close>
\<close>

definition calculate_lcoe :: "real \<Rightarrow> real \<Rightarrow> int \<Rightarrow> py_error + real" where
  "calculate_lcoe total_cost annual_energy_kWh system_lifetime =
     py_div total_cost (annual_energy_kWh * of_int system_lifetime)"

text \<open>
  \<^verbatim>\<open>
  def calculate_discounted_payback(total_cost, annual_savings, interest_rate, lifetime=25):
      cash_flows = np.array([annual_savings / ((1 + interest_rate) ** year)
                             for year in range(1, lifetime + 1)])
      cumulative = np.cumsum(cash_flows)
      if cumulative[-1] < total_cost:
          return None
      return np.argmax(cumulative >= total_cost) + 1
  \<close>
  The comprehension divides once per year and stops at the first division that raises.
\<close>

fun cash_flows :: "real \<Rightarrow> real \<Rightarrow> nat list \<Rightarrow> py_error + real list" where
  "cash_flows annual_savings interest_rate [] = Inr []"
| "cash_flows annual_savings interest_rate (year # years) =
     (case py_div annual_savings ((1 + interest_rate) ^ year) of
        Inl e \<Rightarrow> Inl e
      | Inr c \<Rightarrow>
          (case cash_flows annual_savings interest_rate years of
             Inl e \<Rightarrow> Inl e
           | Inr cs \<Rightarrow> Inr (c # cs)))"

text \<open>\<^verbatim>\<open>np.cumsum\<close>: the running sums of a sequence.\<close>

fun cumsum_from :: "real \<Rightarrow> real list \<Rightarrow> real list" where
  "cumsum_from acc [] = []"
| "cumsum_from acc (x # xs) = (acc + x) # cumsum_from (acc + x) xs"

definition cumsum :: "real list \<Rightarrow> real list" where
  "cumsum xs = cumsum_from 0 xs"

text \<open>
  \<^verbatim>\<open>np.argmax\<close>: the index of the first occurrence of the greatest element
  (on booleans, \<open>False < True\<close>).
\<close>

fun find_index :: "('a \<Rightarrow> bool) \<Rightarrow> 'a list \<Rightarrow> nat" where
  "find_index P [] = 0"
| "find_index P (x # xs) = (if P x then 0 else Suc (find_index P xs))"

definition argmax :: "bool list \<Rightarrow> nat" where
  "argmax bs = (case bs of [] \<Rightarrow> 0 | b # bs' \<Rightarrow> find_index (\<lambda>x. x = fold max bs' b) bs)"

definition calculate_discounted_payback ::
    "real \<Rightarrow> real \<Rightarrow> real \<Rightarrow> nat \<Rightarrow> py_error + int option" where
  "calculate_discounted_payback total_cost annual_savings interest_rate lifetime =
     (case cash_flows annual_savings interest_rate [1..<lifetime + 1] of
        Inl e \<Rightarrow> Inl e
      | Inr flows \<Rightarrow>
          (let cumulative = cumsum flows
           in if cumulative = [] then Inl IndexError
              else if last cumulative < total_cost then Inr None
              else Inr (Some (int (argmax (map (\<lambda>c. total_cost \<le> c) cumulative)) + 1))))"

section \<open>Responses of the external services\<close>

text \<open>
  \<^verbatim>\<open>response.json()\<close> yields Python values built from JSON. An object is the
  association list of its dict (keys distinct, in insertion order).
\<close>

datatype json =
    JNull
  | JBool bool
  | JNum real
  | JStr string
  | JArr "json list"
  | JObj "(string \<times> json) list"

text \<open>Sequencing of computations that may raise.\<close>

definition and_then :: "py_error + 'a \<Rightarrow> ('a \<Rightarrow> py_error + 'b) \<Rightarrow> py_error + 'b" where
  "and_then r f = (case r of Inl e \<Rightarrow> Inl e | Inr x \<Rightarrow> f x)"

text \<open>A list comprehension whose body may raise: it stops at the first exception.\<close>

fun traverse :: "('a \<Rightarrow> py_error + 'b) \<Rightarrow> 'a list \<Rightarrow> py_error + 'b list" where
  "traverse f [] = Inr []"
| "traverse f (x # xs) =
     and_then (f x) (\<lambda>y. and_then (traverse f xs) (\<lambda>ys. Inr (y # ys)))"

text \<open>\<^verbatim>\<open>d[key]\<close> with a string key: only a dict can be subscripted so.\<close>

definition getitem :: "json \<Rightarrow> string \<Rightarrow> py_error + json" where
  "getitem d key =
     (case d of
        JObj kvs \<Rightarrow> (case map_of kvs key of None \<Rightarrow> Inl KeyError | Some v \<Rightarrow> Inr v)
      | _ \<Rightarrow> Inl TypeError)"

text \<open>
  \<^verbatim>\<open>for i in x\<close>: a list yields its elements, a dict its keys, a string its
  characters; nothing else can be iterated.
\<close>

definition iterate :: "json \<Rightarrow> py_error + json list" where
  "iterate x =
     (case x of
        JArr xs \<Rightarrow> Inr xs
      | JObj kvs \<Rightarrow> Inr (map (\<lambda>kv. JStr (fst kv)) kvs)
      | JStr s \<Rightarrow> Inr (map (\<lambda>c. JStr [c]) s)
      | _ \<Rightarrow> Inl TypeError)"

text \<open>
  \<^verbatim>\<open>float(x)\<close>. The grammar of numbers in strings belongs to Python, not to this
  program, so the conversion of a string is a parameter.
\<close>

definition py_float :: "(string \<Rightarrow> real option) \<Rightarrow> json \<Rightarrow> py_error + real" where
  "py_float parse x =
     (case x of
        JNum r \<Rightarrow> Inr r
      | JBool b \<Rightarrow> Inr (if b then 1 else 0)
      | JStr s \<Rightarrow>
          (case parse s of
             None \<Rightarrow> Inl (ValueError ''could not convert string to float'')
           | Some r \<Rightarrow> Inr r)
      | _ \<Rightarrow> Inl TypeError)"

text \<open>\<^verbatim>\<open>d.values()\<close>: only a dict has the method.\<close>

definition dict_values :: "json \<Rightarrow> py_error + json list" where
  "dict_values d = (case d of JObj kvs \<Rightarrow> Inr (map snd kvs) | _ \<Rightarrow> Inl AttributeError)"

text \<open>\<^verbatim>\<open>sum(values)\<close>: addition from 0, defined on numbers (and booleans) only.\<close>

fun py_sum_from :: "real \<Rightarrow> json list \<Rightarrow> py_error + real" where
  "py_sum_from acc [] = Inr acc"
| "py_sum_from acc (x # xs) =
     (case x of
        JNum r \<Rightarrow> py_sum_from (acc + r) xs
      | JBool b \<Rightarrow> py_sum_from (acc + (if b then 1 else 0)) xs
      | _ \<Rightarrow> Inl TypeError)"

definition py_sum :: "json list \<Rightarrow> py_error + real" where
  "py_sum xs = py_sum_from 0 xs"

text \<open>
  The services the program calls, as it sees them: the geocoder returns a position, no
  match, or raises; \<^verbatim>\<open>requests.get(url).json()\<close> for the PVGIS and for the NASA
  POWER address built from a position returns the parsed body or raises.
\<close>

record env =
  geocode :: "string \<Rightarrow> py_error + (real \<times> real) option"
  pvgis_get :: "real \<Rightarrow> real \<Rightarrow> py_error + json"
  nasa_get :: "real \<Rightarrow> real \<Rightarrow> py_error + json"
  float_of_str :: "string \<Rightarrow> real option"

section \<open>Location and irradiance\<close>

text \<open>
  \<^verbatim>\<open>
  def get_coordinates(location):
      geolocator = Nominatim(user_agent="solar_estimator")
      loc = geolocator.geocode(location)
      if not loc:
          raise ValueError("Could not find location. Please enter a valid city or region.")
      return loc.latitude, loc.longitude
  \<close>
\<close>

definition get_coordinates :: "env \<Rightarrow> string \<Rightarrow> py_error + real \<times> real" where
  "get_coordinates env location =
     (case geocode env location of
        Inl e \<Rightarrow> Inl e
      | Inr None \<Rightarrow>
          Inl (ValueError ''Could not find location. Please enter a valid city or region.'')
      | Inr (Some loc) \<Rightarrow> Inr loc)"

text \<open>
  \<^verbatim>\<open>
  def get_irradiance_pvgis(lat, lon):
      url = (...)
      response = requests.get(url)
      data = response.json()
      try:
          irradiance_values = [float(i['G(i)']) for i in data['outputs']['hourly']]
          annual_irradiance = sum(irradiance_values) / 1000  # Wh/m2 to kWh/m2
          return round(annual_irradiance / 365, 2)
      except Exception:
          raise ValueError("PVGIS failed")
  \<close>
  The request and the parsing of the body are outside the \<^verbatim>\<open>try\<close>: what they raise
  leaves the function unchanged.
\<close>

definition irradiance_values :: "env \<Rightarrow> json \<Rightarrow> py_error + real list" where
  "irradiance_values env data =
     and_then (getitem data ''outputs'') (\<lambda>outputs.
     and_then (getitem outputs ''hourly'') (\<lambda>hourly.
     and_then (iterate hourly)
       (traverse (\<lambda>i. and_then (getitem i ''G(i)'') (py_float (float_of_str env))))))"

definition get_irradiance_pvgis :: "env \<Rightarrow> real \<Rightarrow> real \<Rightarrow> py_error + real" where
  "get_irradiance_pvgis env lat lon =
     (case pvgis_get env lat lon of
        Inl e \<Rightarrow> Inl e
      | Inr data \<Rightarrow>
          (case irradiance_values env data of
             Inl _ \<Rightarrow> Inl (ValueError ''PVGIS failed'')
           | Inr vs \<Rightarrow>
               (let annual_irradiance = sum_list vs / 1000
                in Inr (py_round (annual_irradiance / 365) 2))))"

text \<open>
  \<^verbatim>\<open>
  def get_irradiance_nasa(lat, lon):
      url = (...)
      response = requests.get(url)
      data = response.json()
      try:
          values = list(data['properties']['parameter']['ALLSKY_SFC_SW_DWN'].values())
          avg_daily_irradiance = sum(values) / len(values)
          return round(avg_daily_irradiance, 2)
      except Exception:
          raise ValueError("NASA POWER fallback also failed")
  \<close>
\<close>

definition avg_daily_irradiance :: "json \<Rightarrow> py_error + real" where
  "avg_daily_irradiance data =
     and_then (getitem data ''properties'') (\<lambda>properties.
     and_then (getitem properties ''parameter'') (\<lambda>parameter.
     and_then (getitem parameter ''ALLSKY_SFC_SW_DWN'') (\<lambda>d.
     and_then (dict_values d) (\<lambda>values.
     and_then (py_sum values) (\<lambda>total.
     py_div total (real (length values)))))))"

definition get_irradiance_nasa :: "env \<Rightarrow> real \<Rightarrow> real \<Rightarrow> py_error + real" where
  "get_irradiance_nasa env lat lon =
     (case nasa_get env lat lon of
        Inl e \<Rightarrow> Inl e
      | Inr data \<Rightarrow>
          (case avg_daily_irradiance data of
             Inl _ \<Rightarrow> Inl (ValueError ''NASA POWER fallback also failed'')
           | Inr avg \<Rightarrow> Inr (py_round avg 2)))"

section \<open>The handler of the Estimate button\<close>

text \<open>
  What one run computes and shows. The handler's effects are the calls it makes and the
  messages it shows, in order; a run is modelled by the list of these events. Showing a
  message (\<^verbatim>\<open>st.markdown\<close>, \<^verbatim>\<open>st.success\<close>, \<^verbatim>\<open>st.warning\<close>,
  \<^verbatim>\<open>st.error\<close>) is taken not to raise.
\<close>

record results =
  res_irradiance :: real
  res_energy_kWh :: real
  res_panels :: int
  res_inverter_kW :: real
  res_battery_kWh :: real
  res_total_cost :: real
  res_lcoe :: real
  res_payback :: "int option"

datatype ui =
    Ui_coordinates real real
  | Ui_success_pvgis
  | Ui_warning_fallback
  | Ui_results results
  | Ui_error py_error

datatype callee =
    Get_coordinates
  | Get_irradiance_pvgis
  | Get_irradiance_nasa
  | Estimate_energy_potential
  | Size_components
  | Calculate_lcoe
  | Calculate_discounted_payback

datatype event = Call callee | Show ui

text \<open>
  \<^verbatim>\<open>
  cost_per_watt = 0.5
  bos_cost = 0.15
  battery_cost = 200
  system_capacity_kW = panels * 0.35
  total_cost = (system_capacity_kW * (cost_per_watt + bos_cost) * 1000 +
                battery_kWh * battery_cost)
  \<close>
\<close>

definition system_capacity_kW :: "int \<Rightarrow> real" where
  "system_capacity_kW panels = of_int panels * 0.35"

definition total_cost_of :: "int \<Rightarrow> real \<Rightarrow> real" where
  "total_cost_of panels battery_kWh =
     (let cost_per_watt = 0.5;
          bos_cost = 0.15;
          battery_cost = 200
      in system_capacity_kW panels * (cost_per_watt + bos_cost) * 1000 +
         battery_kWh * battery_cost)"

text \<open>
  The part of the handler after the irradiance is known:
  \<^verbatim>\<open>
  energy_kWh = estimate_energy_potential(irradiance, area_m2, panel_efficiency)
  panels, inverter_kW, battery_kWh = size_components(energy_kWh)
  ... total_cost ...
  lcoe = calculate_lcoe(total_cost, energy_kWh)
  savings = energy_kWh * 0.15
  payback = calculate_discounted_payback(total_cost, savings, interest_rate)
  \<close>
  It returns the calls made and either the exception that ended it or the results.
\<close>

definition estimate_stage ::
    "real \<Rightarrow> real \<Rightarrow> real \<Rightarrow> real \<Rightarrow> event list \<times> (py_error + results)" where
  "estimate_stage irradiance area_m2 interest_rate panel_efficiency =
     (let energy_kWh = estimate_energy_potential irradiance area_m2 panel_efficiency;
          (panels, inverter_kW, battery_kWh) = size_components energy_kWh;
          total_cost = total_cost_of panels battery_kWh
      in case calculate_lcoe total_cost energy_kWh 25 of
           Inl e \<Rightarrow>
             ([Call Estimate_energy_potential, Call Size_components, Call Calculate_lcoe],
              Inl e)
         | Inr lcoe \<Rightarrow>
             (let savings = energy_kWh * 0.15
              in ([Call Estimate_energy_potential, Call Size_components, Call Calculate_lcoe,
                   Call Calculate_discounted_payback],
                  case calculate_discounted_payback total_cost savings interest_rate 25 of
                    Inl e \<Rightarrow> Inl e
                  | Inr payback \<Rightarrow>
                      Inr \<lparr>res_irradiance = irradiance, res_energy_kWh = energy_kWh,
                           res_panels = panels, res_inverter_kW = inverter_kW,
                           res_battery_kWh = battery_kWh, res_total_cost = total_cost,
                           res_lcoe = lcoe, res_payback = payback\<rparr>)))"

text \<open>The end of a run: the results are shown, or the outer handler shows the exception.\<close>

definition finish :: "event list \<times> (py_error + results) \<Rightarrow> event list" where
  "finish st =
     fst st @ [Show (case snd st of Inl e \<Rightarrow> Ui_error e | Inr r \<Rightarrow> Ui_results r)]"

text \<open>
  \<^verbatim>\<open>
  if st.button("Estimate Solar Potential"):
      try:
          lat, lon = get_coordinates(location)
          st.markdown(... coordinates ...)
          try:
              irradiance = get_irradiance_pvgis(lat, lon)
              st.success("Data source: PVGIS")
          except:
              irradiance = get_irradiance_nasa(lat, lon)
              st.warning("PVGIS failed. Used NASA POWER as fallback.")
          ... (the estimations, then the results) ...
      except Exception as e:
          st.error(f"Error: {e}")
  \<close>
\<close>

definition handler :: "env \<Rightarrow> string \<Rightarrow> real \<Rightarrow> real \<Rightarrow> real \<Rightarrow> event list" where
  "handler env location area_m2 interest_rate panel_efficiency =
     Call Get_coordinates #
     (case get_coordinates env location of
        Inl e \<Rightarrow> [Show (Ui_error e)]
      | Inr (lat, lon) \<Rightarrow>
          Show (Ui_coordinates lat lon) # Call Get_irradiance_pvgis #
          (case get_irradiance_pvgis env lat lon of
             Inr irradiance \<Rightarrow>
               Show Ui_success_pvgis #
               finish (estimate_stage irradiance area_m2 interest_rate panel_efficiency)
           | Inl _ \<Rightarrow>
               Call Get_irradiance_nasa #
               (case get_irradiance_nasa env lat lon of
                  Inl e \<Rightarrow> [Show (Ui_error e)]
                | Inr irradiance \<Rightarrow>
                    Show Ui_warning_fallback #
                    finish (estimate_stage irradiance area_m2 interest_rate panel_efficiency))))"

text \<open>The calls to the two irradiance providers among the events of a run, in order.\<close>

definition provider_calls :: "event list \<Rightarrow> event list" where
  "provider_calls tr =
     filter (\<lambda>ev. ev = Call Get_irradiance_pvgis \<or> ev = Call Get_irradiance_nasa) tr"

section \<open>Example services\<close>

text \<open>A geocoder that places every name near Accra.\<close>

definition geocode_accra :: "string \<Rightarrow> py_error + (real \<times> real) option" where
  "geocode_accra location = Inr (Some (5.56, - 0.2))"

text \<open>A NASA POWER body with two monthly values.\<close>

definition nasa_body :: json where
  "nasa_body =
     JObj [(''properties'', JObj [(''parameter'',
       JObj [(''ALLSKY_SFC_SW_DWN'', JObj [(''JAN'', JNum 4.5), (''FEB'', JNum 5.5)])])])]"

text \<open>A PVGIS body whose hourly series is empty.\<close>

definition pvgis_empty_body :: json where
  "pvgis_empty_body = JObj [(''outputs'', JObj [(''hourly'', JArr [])])]"

text \<open>A PVGIS body whose hourly series sums to 1825000 Wh/m2, that is 5 kWh/m2 a day.\<close>

definition pvgis_body :: json where
  "pvgis_body =
     JObj [(''outputs'', JObj [(''hourly'',
       JArr [JObj [(''G(i)'', JNum 1000000)], JObj [(''G(i)'', JNum 825000)]])])]"

text \<open>PVGIS answers.\<close>

definition env_primary :: env where
  "env_primary =
     \<lparr>geocode = geocode_accra,
      pvgis_get = (\<lambda>lat lon. Inr pvgis_body),
      nasa_get = (\<lambda>lat lon. Inr nasa_body),
      float_of_str = (\<lambda>s. None)\<rparr>"

text \<open>PVGIS is unreachable, NASA POWER answers.\<close>

definition env_fallback :: env where
  "env_fallback =
     \<lparr>geocode = geocode_accra,
      pvgis_get = (\<lambda>lat lon. Inl RequestException),
      nasa_get = (\<lambda>lat lon. Inr nasa_body),
      float_of_str = (\<lambda>s. None)\<rparr>"

text \<open>PVGIS is unreachable and NASA POWER answers with a body that lacks the data.\<close>

definition env_both_fail :: env where
  "env_both_fail =
     \<lparr>geocode = geocode_accra,
      pvgis_get = (\<lambda>lat lon. Inl RequestException),
      nasa_get = (\<lambda>lat lon. Inr (JObj [])),
      float_of_str = (\<lambda>s. None)\<rparr>"

text \<open>PVGIS answers with an empty hourly series, NASA POWER would answer.\<close>

definition env_empty_series :: env where
  "env_empty_series =
     \<lparr>geocode = geocode_accra,
      pvgis_get = (\<lambda>lat lon. Inr pvgis_empty_body),
      nasa_get = (\<lambda>lat lon. Inr nasa_body),
      float_of_str = (\<lambda>s. None)\<rparr>"

section \<open>The formulas the design states\<close>

text \<open>
  The discounted cumulative savings after \<open>y\<close> years, as the design writes them: the sum
  of \<open>annual_savings / (1 + interest_rate) ^ k\<close> over the years \<open>k = 1, \<dots>, y\<close>.
\<close>

definition discounted_cumulative :: "real \<Rightarrow> real \<Rightarrow> nat \<Rightarrow> real" where
  "discounted_cumulative annual_savings interest_rate y =
     (\<Sum>k = 1..y. annual_savings / (1 + interest_rate) ^ k)"


section \<open>Auxiliary facts\<close>

subsection \<open>The discounted payback computation\<close>

lemma cash_flows_ok:
  "1 + r \<noteq> 0 \<Longrightarrow> cash_flows s r ys = Inr (map (\<lambda>y. s / (1 + r) ^ y) ys)"
  by (induction ys) (simp_all add: py_div_def)

lemma cash_flows_zero:
  "1 + r = 0 \<Longrightarrow> cash_flows s r [1..<Suc n + 1] = Inl ZeroDivisionError"
  by (simp add: upt_rec py_div_def)

lemma length_cumsum_from: "length (cumsum_from a xs) = length xs"
  by (induction xs arbitrary: a) simp_all

lemma nth_cumsum_from:
  "i < length xs \<Longrightarrow> cumsum_from a xs ! i = a + sum_list (take (Suc i) xs)"
proof (induction xs arbitrary: a i)
  case Nil
  then show ?case by simp
next
  case (Cons x xs)
  show ?case
  proof (cases i)
    case 0
    then show ?thesis by simp
  next
    case (Suc j)
    with Cons.prems have "j < length xs" by simp
    from Cons.IH [OF this, of "a + x"] Suc show ?thesis by (simp add: add.assoc)
  qed
qed

lemma take_years: "i < n \<Longrightarrow> take (Suc i) [1..<n + 1] = [1..<i + 2]"
  using take_upt [of 1 "Suc i" "n + 1"] by simp

lemma nth_cumsum_years:
  assumes "i < n"
  shows "cumsum (map f [1..<n + 1]) ! i = (\<Sum>k = 1..Suc i. f k)"
proof -
  have "cumsum (map f [1..<n + 1]) ! i = sum_list (take (Suc i) (map f [1..<n + 1]))"
    using assms by (simp add: cumsum_def nth_cumsum_from)
  also have "\<dots> = sum_list (map f [1..<i + 2])"
    using assms by (simp only: take_map take_years)
  also have "\<dots> = sum f {1..<i + 2}"
    by (simp add: interv_sum_list_conv_sum_set_nat)
  also have "{1..<i + 2} = {1..Suc i}" by auto
  finally show ?thesis .
qed

lemma fold_max_bool: "fold max bs b = (b \<or> True \<in> set bs)"
  by (induction bs arbitrary: b) (auto simp: max_def)

lemma find_index_first:
  "P (xs ! i) \<Longrightarrow> i < length xs \<Longrightarrow>
     find_index P xs \<le> i \<and> P (xs ! find_index P xs) \<and> (\<forall>j < find_index P xs. \<not> P (xs ! j))"
proof (induction xs arbitrary: i)
  case Nil
  then show ?case by simp
next
  case (Cons x xs)
  show ?case
  proof (cases "P x")
    case True
    then show ?thesis by simp
  next
    case False
    with Cons.prems obtain j where j: "i = Suc j" by (cases i) auto
    with Cons.prems have "P (xs ! j)" "j < length xs" by simp_all
    from Cons.IH [OF this] False j show ?thesis
      by (auto simp: nth_Cons split: nat.splits)
  qed
qed

lemma argmax_first:
  assumes "bs ! i" "i < length bs"
  shows "argmax bs \<le> i \<and> bs ! argmax bs \<and> (\<forall>j < argmax bs. \<not> bs ! j)"
proof -
  from assms obtain b bs' where bs: "bs = b # bs'" by (cases bs) auto
  from assms have "True \<in> set bs" by (metis nth_mem)
  then have "fold max bs' b = True" using bs by (auto simp: fold_max_bool)
  then have "argmax bs = find_index (\<lambda>x. x = True) bs" by (simp only: argmax_def bs list.case)
  then have "argmax bs = find_index (\<lambda>x. x) bs" by simp
  with find_index_first [of "\<lambda>x. x" bs i] assms show ?thesis by simp
qed


lemma payback_unfold:
  fixes T s r :: real and n :: nat
  assumes "1 + r \<noteq> 0" "0 < n"
  defines "cum \<equiv> cumsum (map (\<lambda>y. s / (1 + r) ^ y) [1..<n + 1])"
  shows "calculate_discounted_payback T s r n =
           (if last cum < T then Inr None
            else Inr (Some (int (argmax (map (\<lambda>c. T \<le> c) cum)) + 1)))"
    and "length cum = n"
    and "\<forall>i<n. cum ! i = discounted_cumulative s r (Suc i)"
    and "last cum = discounted_cumulative s r n"
proof -
  show len: "length cum = n"
    by (simp add: cum_def cumsum_def length_cumsum_from)
  then have ne: "cum \<noteq> []" using assms(2) by auto
  show "calculate_discounted_payback T s r n =
           (if last cum < T then Inr None
            else Inr (Some (int (argmax (map (\<lambda>c. T \<le> c) cum)) + 1)))"
    using ne by (simp add: calculate_discounted_payback_def cash_flows_ok [OF assms(1)] cum_def)
  show nth: "\<forall>i<n. cum ! i = discounted_cumulative s r (Suc i)"
    unfolding cum_def discounted_cumulative_def
    by (intro allI impI nth_cumsum_years)
  have "last cum = cum ! (n - 1)" using ne len by (simp add: last_conv_nth)
  also have "\<dots> = discounted_cumulative s r n" using nth assms(2) by simp
  finally show "last cum = discounted_cumulative s r n" .
qed

lemma payback_None:
  assumes "1 + r \<noteq> 0" "0 < n" "discounted_cumulative s r n < T"
  shows "calculate_discounted_payback T s r n = Inr None"
  using payback_unfold(1,4) [OF assms(1,2)] assms(3) by simp

lemma payback_Some:
  assumes "1 + r \<noteq> 0" "0 < n" "T \<le> discounted_cumulative s r n"
  shows "\<exists>y. calculate_discounted_payback T s r n = Inr (Some (int y)) \<and> 1 \<le> y \<and> y \<le> n \<and>
             T \<le> discounted_cumulative s r y \<and>
             (\<forall>k. 1 \<le> k \<and> k < y \<longrightarrow> discounted_cumulative s r k < T)"
proof -
  define cum where "cum = cumsum (map (\<lambda>y. s / (1 + r) ^ y) [1..<n + 1])"
  define bs where "bs = map (\<lambda>c. T \<le> c) cum"
  note u1 = payback_unfold(1) [OF assms(1,2), where T = T and s = s, folded cum_def]
  note u2 = payback_unfold(2) [OF assms(1,2), where s = s, folded cum_def]
  note u3 = payback_unfold(3) [OF assms(1,2), where s = s, folded cum_def]
  note u4 = payback_unfold(4) [OF assms(1,2), where s = s, folded cum_def]
  have len: "length bs = n" using u2 by (simp add: bs_def)
  have nth: "bs ! i = (T \<le> discounted_cumulative s r (Suc i))" if "i < n" for i
    using that u2 u3 by (simp add: bs_def)
  have "bs ! (n - 1)" using nth [of "n - 1"] assms(2,3) by simp
  moreover have "n - 1 < length bs" using len assms(2) by simp
  ultimately have am: "argmax bs \<le> n - 1" "bs ! argmax bs" "\<forall>j<argmax bs. \<not> bs ! j"
    using argmax_first [of bs "n - 1"] by simp_all
  let ?y = "Suc (argmax bs)"
  have res: "calculate_discounted_payback T s r n = Inr (Some (int ?y))"
    using u1 u4 assms(3) by (simp add: bs_def)
  have yn: "?y \<le> n" using am(1) assms(2) by simp
  have reach: "T \<le> discounted_cumulative s r ?y"
    using am(2) nth [of "argmax bs"] yn by simp
  have before: "discounted_cumulative s r k < T" if "1 \<le> k \<and> k < ?y" for k
  proof -
    from that obtain j where j: "k = Suc j" by (cases k) auto
    with that have "j < argmax bs" by simp
    with am(3) have "\<not> bs ! j" by simp
    moreover have "j < n" using \<open>j < argmax bs\<close> yn by simp
    ultimately show ?thesis using nth [of j] j by simp
  qed
  from res yn reach before show ?thesis by (intro exI [of _ ?y]) simp
qed

lemma payback_div_zero:
  assumes "1 + r = 0" "0 < n"
  shows "calculate_discounted_payback T s r n = Inl ZeroDivisionError"
proof -
  from assms(2) obtain m where "n = Suc m" by (cases n) auto
  then show ?thesis
    using cash_flows_zero [OF assms(1), of s m] by (simp add: calculate_discounted_payback_def)
qed

lemma payback_no_years: "calculate_discounted_payback T s r 0 = Inl IndexError"
  by (simp add: calculate_discounted_payback_def cumsum_def)





lemma discounted_rate_zero: "discounted_cumulative s 0 y = real y * s"
  by (simp add: discounted_cumulative_def)

lemma payback_eqI:
  assumes "1 + r \<noteq> 0" "1 \<le> y" "y \<le> n"
    and "T \<le> discounted_cumulative s r n"
    and "T \<le> discounted_cumulative s r y"
    and "\<forall>k. 1 \<le> k \<and> k < y \<longrightarrow> discounted_cumulative s r k < T"
  shows "calculate_discounted_payback T s r n = Inr (Some (int y))"
proof -
  have n: "0 < n" using assms(2,3) by simp
  from payback_Some [OF assms(1) n assms(4)] obtain z where
    z: "calculate_discounted_payback T s r n = Inr (Some (int z))" "1 \<le> z" "z \<le> n"
       "T \<le> discounted_cumulative s r z"
       "\<forall>k. 1 \<le> k \<and> k < z \<longrightarrow> discounted_cumulative s r k < T"
    by blast
  have "\<not> z < y" using assms(6) z(2,4) by force
  moreover have "\<not> y < z" using z(5) assms(2,5) by force
  ultimately show ?thesis using z(1) by simp
qed



text \<open>
  With negative savings the running sums decrease, and the test of the last one alone
  answers "not recovered" although the first year already covers the cost.
\<close>

lemma payback_negative_savings_example:
  "calculate_discounted_payback (- 5) (- 1) 0 25 = Inr None \<and>
   - 5 \<le> discounted_cumulative (- 1) 0 1"
  using payback_None [of 0 25 "- 1" "- 5"] by (simp add: discounted_rate_zero)

subsection \<open>Rounding\<close>






subsection \<open>More on the payback\<close>


lemma payback_example_five: "calculate_discounted_payback 22195 4927.5 0 25 = Inr (Some 5)"
proof -
  have "\<forall>k. 1 \<le> k \<and> k < (5::nat) \<longrightarrow> discounted_cumulative 4927.5 0 k < 22195"
  proof (intro allI impI)
    fix k :: nat
    assume "1 \<le> k \<and> k < 5"
    then have "real k \<le> 4" by simp
    then show "discounted_cumulative 4927.5 0 k < 22195"
      by (simp add: discounted_rate_zero)
  qed
  then show ?thesis
    using payback_eqI [of 0 5 25 22195 "4927.5"] by (simp add: discounted_rate_zero)
qed

subsection \<open>The estimation stage\<close>

lemma size_components_example: "size_components 32850 = (58, 20, 45)"
  by (simp add: size_components_def py_round_def round_half_even_def panel_wattage_def
      PSH_def Let_def)

lemma estimate_stage_example:
  "estimate_stage 5 100 0 0.18 =
     ([Call Estimate_energy_potential, Call Size_components, Call Calculate_lcoe,
       Call Calculate_discounted_payback],
      Inr \<lparr>res_irradiance = 5, res_energy_kWh = 32850, res_panels = 58,
           res_inverter_kW = 20, res_battery_kWh = 45, res_total_cost = 22195,
           res_lcoe = 22195 / 821250, res_payback = Some 5\<rparr>)"
proof -
  have e: "estimate_energy_potential 5 100 0.18 = 32850"
    by (simp add: estimate_energy_potential_def)
  have t: "total_cost_of 58 45 = 22195"
    by (simp add: total_cost_of_def system_capacity_kW_def)
  have l: "calculate_lcoe 22195 32850 25 = Inr (22195 / 821250)"
    by (simp add: calculate_lcoe_def py_div_def)
  have s: "(32850::real) * 0.15 = 4927.5" by simp
  show ?thesis
    unfolding estimate_stage_def e Let_def size_components_example prod.case t l s
      payback_example_five
    by simp
qed

lemma estimate_stage_zero:
  "estimate_stage 0 area_m2 interest_rate panel_efficiency =
     ([Call Estimate_energy_potential, Call Size_components, Call Calculate_lcoe],
      Inl ZeroDivisionError)"
  by (simp add: estimate_stage_def estimate_energy_potential_def size_components_def
      py_round_def round_half_even_def Let_def calculate_lcoe_def py_div_def)


lemma estimate_stage_calls:
  "fst (estimate_stage i a r e) =
     [Call Estimate_energy_potential, Call Size_components, Call Calculate_lcoe] \<or>
   fst (estimate_stage i a r e) =
     [Call Estimate_energy_potential, Call Size_components, Call Calculate_lcoe,
      Call Calculate_discounted_payback]"
  by (simp add: estimate_stage_def Let_def split: prod.splits sum.splits)

lemma estimate_stage_irradiance:
  "snd (estimate_stage i a r e) = Inr res \<Longrightarrow> res_irradiance res = i"
  by (auto simp: estimate_stage_def Let_def split: prod.splits sum.splits)

lemma provider_calls_finish: "provider_calls (finish (estimate_stage i a r e)) = []"
  using estimate_stage_calls [of i a r e]
  by (auto simp: provider_calls_def finish_def)

lemma finish_no_source_message:
  "Show Ui_success_pvgis \<notin> set (finish (estimate_stage i a r e)) \<and>
   Show Ui_warning_fallback \<notin> set (finish (estimate_stage i a r e))"
  using estimate_stage_calls [of i a r e]
  by (auto simp: finish_def split: sum.splits)

lemma finish_results:
  "Show (Ui_results res) \<in> set (finish (estimate_stage i a r e)) \<Longrightarrow> res_irradiance res = i"
  using estimate_stage_calls [of i a r e] estimate_stage_irradiance [of i a r e res]
  by (auto simp: finish_def split: sum.splits)

lemma finish_calls_estimator:
  "Call Estimate_energy_potential \<in> set (finish (estimate_stage i a r e))"
  using estimate_stage_calls [of i a r e]
  by (auto simp: finish_def)

subsection \<open>The four ways a run can go\<close>

lemma handler_no_location:
  "get_coordinates env location = Inl e \<Longrightarrow>
   handler env location a r eff = [Call Get_coordinates, Show (Ui_error e)]"
  by (simp add: handler_def)

lemma handler_primary:
  "get_coordinates env location = Inr (lat, lon) \<Longrightarrow>
   get_irradiance_pvgis env lat lon = Inr irr \<Longrightarrow>
   handler env location a r eff =
     [Call Get_coordinates, Show (Ui_coordinates lat lon), Call Get_irradiance_pvgis,
      Show Ui_success_pvgis] @ finish (estimate_stage irr a r eff)"
  by (simp add: handler_def)

lemma handler_fallback:
  "get_coordinates env location = Inr (lat, lon) \<Longrightarrow>
   get_irradiance_pvgis env lat lon = Inl e \<Longrightarrow>
   get_irradiance_nasa env lat lon = Inr irr \<Longrightarrow>
   handler env location a r eff =
     [Call Get_coordinates, Show (Ui_coordinates lat lon), Call Get_irradiance_pvgis,
      Call Get_irradiance_nasa, Show Ui_warning_fallback] @
     finish (estimate_stage irr a r eff)"
  by (simp add: handler_def)

lemma handler_unavailable:
  "get_coordinates env location = Inr (lat, lon) \<Longrightarrow>
   get_irradiance_pvgis env lat lon = Inl e \<Longrightarrow>
   get_irradiance_nasa env lat lon = Inl e' \<Longrightarrow>
   handler env location a r eff =
     [Call Get_coordinates, Show (Ui_coordinates lat lon), Call Get_irradiance_pvgis,
      Call Get_irradiance_nasa, Show (Ui_error e')]"
  by (simp add: handler_def)

lemma provider_calls_append: "provider_calls (xs @ ys) = provider_calls xs @ provider_calls ys"
  by (simp add: provider_calls_def)

subsection \<open>The example services\<close>

lemma pvgis_answers: "get_irradiance_pvgis env_primary lat lon = Inr 5"
  by (simp add: get_irradiance_pvgis_def env_primary_def pvgis_body_def
      irradiance_values_def getitem_def and_then_def iterate_def py_float_def py_round_def
      round_half_even_def)

lemma get_coordinates_primary: "get_coordinates env_primary location = Inr (5.56, - 0.2)"
  by (simp add: get_coordinates_def env_primary_def geocode_accra_def)

lemma get_coordinates_accra:
  "get_coordinates env_fallback location = Inr (5.56, - 0.2)"
  "get_coordinates env_both_fail location = Inr (5.56, - 0.2)"
  "get_coordinates env_empty_series location = Inr (5.56, - 0.2)"
  by (simp_all add: get_coordinates_def env_fallback_def env_both_fail_def
      env_empty_series_def geocode_accra_def)

lemma pvgis_unreachable:
  "get_irradiance_pvgis env_fallback lat lon = Inl RequestException"
  "get_irradiance_pvgis env_both_fail lat lon = Inl RequestException"
  by (simp_all add: get_irradiance_pvgis_def env_fallback_def env_both_fail_def)

lemma nasa_body_average: "avg_daily_irradiance nasa_body = Inr 5"
  by (simp add: avg_daily_irradiance_def nasa_body_def getitem_def and_then_def
      dict_values_def py_sum_def py_div_def)

lemma nasa_answers: "get_irradiance_nasa env_fallback lat lon = Inr 5"
  by (simp add: get_irradiance_nasa_def env_fallback_def nasa_body_average py_round_def
      round_half_even_def)

lemma nasa_lacks_data:
  "get_irradiance_nasa env_both_fail lat lon =
     Inl (ValueError ''NASA POWER fallback also failed'')"
  by (simp add: get_irradiance_nasa_def env_both_fail_def avg_daily_irradiance_def
      getitem_def and_then_def)

lemma pvgis_empty_series:
  "get_irradiance_pvgis env_empty_series lat lon = Inr 0"
  by (simp add: get_irradiance_pvgis_def env_empty_series_def pvgis_empty_body_def
      irradiance_values_def getitem_def and_then_def iterate_def py_round_def
      round_half_even_def)

lemma nasa_empty_values:
  "avg_daily_irradiance
     (JObj [(''properties'', JObj [(''parameter'',
        JObj [(''ALLSKY_SFC_SW_DWN'', JObj [])])])]) = Inl ZeroDivisionError"
  by (simp add: avg_daily_irradiance_def getitem_def and_then_def dict_values_def
      py_sum_def py_div_def)

section \<open>Properties of the estimations\<close>

text \<open>
  Claim C2. \<open>estimate_energy_potential\<close> returns exactly
  \<open>irradiance \<times> 365 \<times> area \<times> efficiency\<close>. The function is total: it has no
  failing branch, so the equation holds for all arguments, in particular for positive
  irradiance and area and an efficiency in \<open>(0, 1]\<close>.
\<close>

theorem estimate_energy_potential_formula:
  "estimate_energy_potential irradiance area_m2 panel_efficiency =
     irradiance * 365 * area_m2 * panel_efficiency"
  by (simp add: estimate_energy_potential_def)


text \<open>
  Claim C6. \<open>calculate_lcoe\<close> returns \<open>total_cost / (annual \<times> 25)\<close> when the annual
  energy is not zero and raises \<open>ZeroDivisionError\<close> when it is zero; with a positive
  annual energy it does not raise.
\<close>

theorem calculate_lcoe_spec:
  "(annual \<noteq> 0 \<longrightarrow> calculate_lcoe total_cost annual 25 = Inr (total_cost / (annual * 25))) \<and>
   calculate_lcoe total_cost 0 25 = Inl ZeroDivisionError \<and>
   (0 < annual \<longrightarrow> (\<forall>e. calculate_lcoe total_cost annual 25 \<noteq> Inl e))"
  by (simp add: calculate_lcoe_def py_div_def)

theorem calculate_lcoe_spec_witness:
  "(32850::real) \<noteq> 0 \<and> (0::real) < 32850 \<and>
   calculate_lcoe 22195 32850 25 = Inr (22195 / (32850 * 25)) \<and>
   calculate_lcoe 22195 0 25 = Inl ZeroDivisionError \<and>
   calculate_lcoe 22195 32850 25 \<noteq> Inl ZeroDivisionError"
  using calculate_lcoe_spec [of 32850 22195] by simp

section \<open>Properties of the discounted payback\<close>








section \<open>Properties of a run\<close>

text \<open>
  Claim C1. In every run the calls to the irradiance providers are none (the location was
  not found), PVGIS alone, or PVGIS and then NASA POWER once. Once the location is
  resolved: if PVGIS answers, it alone is called and the run is marked with the PVGIS
  message; if the PVGIS call raises anything, NASA POWER is called exactly once, after
  it, and no PVGIS message is shown; if NASA POWER answers, the run is marked with the
  fallback warning, the estimation goes on, and results shown carry the fallback's
  irradiance; if NASA POWER raises too, the run ends by showing that error and
  \<open>estimate_energy_potential\<close> is never called.
\<close>

theorem fallback_policy:
  fixes env :: env and location :: string and area_m2 interest_rate panel_efficiency :: real
  defines "run \<equiv> handler env location area_m2 interest_rate panel_efficiency"
  shows
    "provider_calls run \<in>
       {[], [Call Get_irradiance_pvgis], [Call Get_irradiance_pvgis, Call Get_irradiance_nasa]} \<and>
     (\<forall>lat lon. get_coordinates env location = Inr (lat, lon) \<longrightarrow>
        (\<forall>irr. get_irradiance_pvgis env lat lon = Inr irr \<longrightarrow>
           provider_calls run = [Call Get_irradiance_pvgis] \<and>
           Show Ui_success_pvgis \<in> set run \<and> Show Ui_warning_fallback \<notin> set run) \<and>
        (\<forall>e. get_irradiance_pvgis env lat lon = Inl e \<longrightarrow>
           provider_calls run = [Call Get_irradiance_pvgis, Call Get_irradiance_nasa] \<and>
           Show Ui_success_pvgis \<notin> set run \<and>
           (\<forall>irr. get_irradiance_nasa env lat lon = Inr irr \<longrightarrow>
              Show Ui_warning_fallback \<in> set run \<and>
              Call Estimate_energy_potential \<in> set run \<and>
              (\<forall>res. Show (Ui_results res) \<in> set run \<longrightarrow> res_irradiance res = irr)) \<and>
           (\<forall>e'. get_irradiance_nasa env lat lon = Inl e' \<longrightarrow>
              run = [Call Get_coordinates, Show (Ui_coordinates lat lon),
                     Call Get_irradiance_pvgis, Call Get_irradiance_nasa, Show (Ui_error e')] \<and>
              Call Estimate_energy_potential \<notin> set run)))"
    (is "?order \<and> ?policy")
proof
  show ?order
  proof (cases "get_coordinates env location")
    case (Inl e)
    from handler_no_location [OF this] show ?thesis
      by (simp add: run_def provider_calls_def)
  next
    case (Inr loc)
    obtain lat lon where loc: "loc = (lat, lon)" by (cases loc)
    note c = Inr [unfolded loc]
    show ?thesis
    proof (cases "get_irradiance_pvgis env lat lon")
      case (Inr irr)
      have "provider_calls run = [Call Get_irradiance_pvgis]"
        unfolding run_def handler_primary [OF c Inr] provider_calls_append provider_calls_finish
        by (simp add: provider_calls_def)
      then show ?thesis by simp
    next
      case (Inl e)
      show ?thesis
      proof (cases "get_irradiance_nasa env lat lon")
        case (Inr irr)
        have "provider_calls run = [Call Get_irradiance_pvgis, Call Get_irradiance_nasa]"
          unfolding run_def handler_fallback [OF c Inl Inr] provider_calls_append
            provider_calls_finish
          by (simp add: provider_calls_def)
        then show ?thesis by simp
      next
        case e': (Inl e')
        show ?thesis
          unfolding run_def handler_unavailable [OF c Inl e']
          by (simp add: provider_calls_def)
      qed
    qed
  qed
next
  show ?policy
  proof (intro allI impI)
    fix lat lon
    assume c: "get_coordinates env location = Inr (lat, lon)"
    have primary: "provider_calls run = [Call Get_irradiance_pvgis] \<and>
        Show Ui_success_pvgis \<in> set run \<and> Show Ui_warning_fallback \<notin> set run"
      if p: "get_irradiance_pvgis env lat lon = Inr irr" for irr
      unfolding run_def handler_primary [OF c p] provider_calls_append provider_calls_finish
      using finish_no_source_message [of irr area_m2 interest_rate panel_efficiency]
      by (simp add: provider_calls_def)
    have secondary:
      "provider_calls run = [Call Get_irradiance_pvgis, Call Get_irradiance_nasa] \<and>
       Show Ui_success_pvgis \<notin> set run \<and>
       (\<forall>irr. get_irradiance_nasa env lat lon = Inr irr \<longrightarrow>
          Show Ui_warning_fallback \<in> set run \<and>
          Call Estimate_energy_potential \<in> set run \<and>
          (\<forall>res. Show (Ui_results res) \<in> set run \<longrightarrow> res_irradiance res = irr)) \<and>
       (\<forall>e'. get_irradiance_nasa env lat lon = Inl e' \<longrightarrow>
          run = [Call Get_coordinates, Show (Ui_coordinates lat lon),
                 Call Get_irradiance_pvgis, Call Get_irradiance_nasa, Show (Ui_error e')] \<and>
          Call Estimate_energy_potential \<notin> set run)"
      if p: "get_irradiance_pvgis env lat lon = Inl e" for e
    proof (cases "get_irradiance_nasa env lat lon")
      case (Inr irr)
      note h = handler_fallback [OF c p Inr, of area_m2 interest_rate panel_efficiency]
      have calls: "provider_calls run = [Call Get_irradiance_pvgis, Call Get_irradiance_nasa]"
        unfolding run_def h provider_calls_append provider_calls_finish
        by (simp add: provider_calls_def)
      have tag: "Show Ui_success_pvgis \<notin> set run" "Show Ui_warning_fallback \<in> set run"
        unfolding run_def h
        using finish_no_source_message [of irr area_m2 interest_rate panel_efficiency]
        by simp_all
      have est: "Call Estimate_energy_potential \<in> set run"
        unfolding run_def h
        using finish_calls_estimator [of irr area_m2 interest_rate panel_efficiency]
        by simp
      have res: "res_irradiance res = irr" if "Show (Ui_results res) \<in> set run" for res
        using that finish_results [of res irr area_m2 interest_rate panel_efficiency]
        unfolding run_def h by simp
      from calls tag est res Inr show ?thesis by simp
    next
      case (Inl e')
      note h = handler_unavailable [OF c p Inl, of area_m2 interest_rate panel_efficiency]
      show ?thesis
        unfolding run_def h using Inl by (simp add: provider_calls_def)
    qed
    from primary secondary
    show "(\<forall>irr. get_irradiance_pvgis env lat lon = Inr irr \<longrightarrow>
             provider_calls run = [Call Get_irradiance_pvgis] \<and>
             Show Ui_success_pvgis \<in> set run \<and> Show Ui_warning_fallback \<notin> set run) \<and>
          (\<forall>e. get_irradiance_pvgis env lat lon = Inl e \<longrightarrow>
             provider_calls run = [Call Get_irradiance_pvgis, Call Get_irradiance_nasa] \<and>
             Show Ui_success_pvgis \<notin> set run \<and>
             (\<forall>irr. get_irradiance_nasa env lat lon = Inr irr \<longrightarrow>
                Show Ui_warning_fallback \<in> set run \<and>
                Call Estimate_energy_potential \<in> set run \<and>
                (\<forall>res. Show (Ui_results res) \<in> set run \<longrightarrow> res_irradiance res = irr)) \<and>
             (\<forall>e'. get_irradiance_nasa env lat lon = Inl e' \<longrightarrow>
                run = [Call Get_coordinates, Show (Ui_coordinates lat lon),
                       Call Get_irradiance_pvgis, Call Get_irradiance_nasa, Show (Ui_error e')] \<and>
                Call Estimate_energy_potential \<notin> set run))"
      by blast
  qed
qed

text \<open>The three example services: PVGIS answers; only NASA POWER answers; neither does.\<close>

theorem fallback_policy_witness:
  "get_coordinates env_primary ''Accra, Ghana'' = Inr (5.56, - 0.2) \<and>
   get_irradiance_pvgis env_primary 5.56 (- 0.2) = Inr 5 \<and>
   provider_calls (handler env_primary ''Accra, Ghana'' 100 0 0.18) =
     [Call Get_irradiance_pvgis] \<and>
   Show Ui_success_pvgis \<in> set (handler env_primary ''Accra, Ghana'' 100 0 0.18) \<and>
   get_coordinates env_fallback ''Accra, Ghana'' = Inr (5.56, - 0.2) \<and>
   get_irradiance_pvgis env_fallback 5.56 (- 0.2) = Inl RequestException \<and>
   get_irradiance_nasa env_fallback 5.56 (- 0.2) = Inr 5 \<and>
   provider_calls (handler env_fallback ''Accra, Ghana'' 100 0 0.18) =
     [Call Get_irradiance_pvgis, Call Get_irradiance_nasa] \<and>
   Show Ui_warning_fallback \<in> set (handler env_fallback ''Accra, Ghana'' 100 0 0.18) \<and>
   Show Ui_success_pvgis \<notin> set (handler env_fallback ''Accra, Ghana'' 100 0 0.18) \<and>
   get_coordinates env_both_fail ''Accra, Ghana'' = Inr (5.56, - 0.2) \<and>
   get_irradiance_pvgis env_both_fail 5.56 (- 0.2) = Inl RequestException \<and>
   get_irradiance_nasa env_both_fail 5.56 (- 0.2) =
     Inl (ValueError ''NASA POWER fallback also failed'') \<and>
   handler env_both_fail ''Accra, Ghana'' 100 0 0.18 =
     [Call Get_coordinates, Show (Ui_coordinates 5.56 (- 0.2)), Call Get_irradiance_pvgis,
      Call Get_irradiance_nasa,
      Show (Ui_error (ValueError ''NASA POWER fallback also failed''))] \<and>
   Call Estimate_energy_potential \<notin> set (handler env_both_fail ''Accra, Ghana'' 100 0 0.18)"
proof -
  note p = fallback_policy [of env_primary "''Accra, Ghana''" 100 0 "0.18"]
  note f = fallback_policy [of env_fallback "''Accra, Ghana''" 100 0 "0.18"]
  note b = fallback_policy [of env_both_fail "''Accra, Ghana''" 100 0 "0.18"]
  note cp = get_coordinates_primary [of "''Accra, Ghana''"]
  note cf = get_coordinates_accra(1) [of "''Accra, Ghana''"]
  note cb = get_coordinates_accra(2) [of "''Accra, Ghana''"]
  note pp = pvgis_answers [of "5.56" "- 0.2"]
  note pf = pvgis_unreachable(1) [of "5.56" "- 0.2"]
  note pb = pvgis_unreachable(2) [of "5.56" "- 0.2"]
  note nf = nasa_answers [of "5.56" "- 0.2"]
  note nb = nasa_lacks_data [of "5.56" "- 0.2"]
  from p cp pp have 1: "provider_calls (handler env_primary ''Accra, Ghana'' 100 0 0.18) =
      [Call Get_irradiance_pvgis] \<and>
    Show Ui_success_pvgis \<in> set (handler env_primary ''Accra, Ghana'' 100 0 0.18)"
    by blast
  from f cf pf nf have 2: "provider_calls (handler env_fallback ''Accra, Ghana'' 100 0 0.18) =
      [Call Get_irradiance_pvgis, Call Get_irradiance_nasa] \<and>
    Show Ui_warning_fallback \<in> set (handler env_fallback ''Accra, Ghana'' 100 0 0.18) \<and>
    Show Ui_success_pvgis \<notin> set (handler env_fallback ''Accra, Ghana'' 100 0 0.18)"
    by blast
  from b cb pb nb have 3: "handler env_both_fail ''Accra, Ghana'' 100 0 0.18 =
     [Call Get_coordinates, Show (Ui_coordinates 5.56 (- 0.2)), Call Get_irradiance_pvgis,
      Call Get_irradiance_nasa,
      Show (Ui_error (ValueError ''NASA POWER fallback also failed''))] \<and>
   Call Estimate_energy_potential \<notin> set (handler env_both_fail ''Accra, Ghana'' 100 0 0.18)"
    by blast
  from 1 2 3 cp cf cb pp pf pb nf nb show ?thesis by (intro conjI) blast+
qed

text \<open>
  Claim C8 says that an empty hourly series from PVGIS counts as a failure of PVGIS. The
  code does not fail there: the sum of no values is 0, the function returns an
  irradiance of 0, the run is marked as served by PVGIS, NASA POWER is not asked, and
  the run then ends in the division by zero of \<open>calculate_lcoe\<close>.
\<close>

theorem empty_hourly_series_accepted:
  "get_irradiance_pvgis env_empty_series 5.56 (- 0.2) = Inr 0 \<and>
   handler env_empty_series ''Accra, Ghana'' 100 0.08 0.18 =
     [Call Get_coordinates, Show (Ui_coordinates 5.56 (- 0.2)), Call Get_irradiance_pvgis,
      Show Ui_success_pvgis, Call Estimate_energy_potential, Call Size_components,
      Call Calculate_lcoe, Show (Ui_error ZeroDivisionError)]"
  using handler_primary [of env_empty_series "''Accra, Ghana''" "5.56" "- 0.2" 0 100 "0.08" "0.18"]
  by (simp add: get_coordinates_accra pvgis_empty_series estimate_stage_zero finish_def)

text \<open>
  Claim C4. The system capacity used in pricing is \<open>panels \<times> 0.35\<close>, which is the
  number of panels times the sizer's panel wattage of 350 W in kW; the total cost is
  \<open>capacity \<times> (0.5 + 0.15) \<times> 1000 + battery \<times> 200\<close>; and in the results of every
  run that completes, the components are those of \<open>size_components\<close> and the total
  cost is this price of them.
\<close>

theorem total_cost_spec:
  "system_capacity_kW panels = of_int panels * 0.35 \<and>
   system_capacity_kW panels = of_int panels * panel_wattage / 1000 \<and>
   total_cost_of panels battery_kWh =
     system_capacity_kW panels * (0.5 + 0.15) * 1000 + battery_kWh * 200 \<and>
   (\<forall>calls res.
      estimate_stage irradiance area_m2 interest_rate panel_efficiency = (calls, Inr res) \<longrightarrow>
        (res_panels res, res_inverter_kW res, res_battery_kWh res) =
          size_components (res_energy_kWh res) \<and>
        res_total_cost res =
          of_int (res_panels res) * panel_wattage / 1000 * (0.5 + 0.15) * 1000 +
          res_battery_kWh res * 200)"
proof (intro conjI allI impI)
  show "system_capacity_kW panels = of_int panels * 0.35"
    by (simp add: system_capacity_kW_def)
  show "system_capacity_kW panels = of_int panels * panel_wattage / 1000"
    by (simp add: system_capacity_kW_def panel_wattage_def)
  show "total_cost_of panels battery_kWh =
     system_capacity_kW panels * (0.5 + 0.15) * 1000 + battery_kWh * 200"
    by (simp add: total_cost_of_def)
next
  fix calls res
  assume st: "estimate_stage irradiance area_m2 interest_rate panel_efficiency =
      (calls, Inr res)"
  define energy where "energy = estimate_energy_potential irradiance area_m2 panel_efficiency"
  obtain p i b where sz: "size_components energy = (p, i, b)"
    by (cases "size_components energy")
  from st have res: "res_energy_kWh res = energy \<and> res_panels res = p \<and>
      res_inverter_kW res = i \<and> res_battery_kWh res = b \<and>
      res_total_cost res = total_cost_of p b"
    unfolding estimate_stage_def energy_def [symmetric] Let_def sz prod.case
    by (auto split: sum.splits)
  with sz show "(res_panels res, res_inverter_kW res, res_battery_kWh res) =
      size_components (res_energy_kWh res)"
    by simp
  from res show "res_total_cost res =
      of_int (res_panels res) * panel_wattage / 1000 * (0.5 + 0.15) * 1000 +
      res_battery_kWh res * 200"
    by (simp add: total_cost_of_def system_capacity_kW_def panel_wattage_def)
qed

text \<open>The design's scenario: 5 kWh/m2/day on 100 m2 at efficiency 0.18 gives 58 panels.\<close>

theorem total_cost_spec_witness:
  "(\<exists>calls res. estimate_stage 5 100 0 0.18 = (calls, Inr res) \<and>
      res_panels res = 58 \<and> res_battery_kWh res = 45 \<and>
      size_components (res_energy_kWh res) = (58, 20, 45) \<and>
      res_total_cost res = 58 * panel_wattage / 1000 * (0.5 + 0.15) * 1000 + 45 * 200) \<and>
   system_capacity_kW 58 = 58 * 0.35 \<and>
   total_cost_of 58 45 = system_capacity_kW 58 * (0.5 + 0.15) * 1000 + 45 * 200"
  using total_cost_spec [of 58 45 5 100 0 "0.18"] estimate_stage_example
  by auto



end
